theory Spec2Isabelle
  imports Complex_Main
begin

section \<open>Floating-point cells\<close>

text \<open>
  The tables of the tutorial hold float64 cells. A cell is modelled as a missing value
  (\<open>NaN\<close>), an infinity, or an exact real number: the arithmetic below follows IEEE 754
  on its special values (\<open>inf - inf\<close>, \<open>0 / 0\<close>, comparisons with \<open>NaN\<close>) and is exact on
  finite values. Rounding error, overflow of finite values and the sign of zero are
  outside the model.
\<close>

datatype fl = NaN | NInf | Fin real | PInf

text \<open>
  The exceptions of Python, pandas and scikit-learn that the modelled code can raise.
  \<open>Unsupported\<close> is no exception: it marks a file outside the fragment of
  \<open>read_csv\<close> modelled below.
\<close>

datatype py_error =
    KeyError | IndexError | ValueError | FileNotFoundError | EmptyDataError | ParserError
  | Unsupported

fun fneg :: "fl \<Rightarrow> fl" where
  "fneg NaN = NaN"
| "fneg NInf = PInf"
| "fneg (Fin a) = Fin (- a)"
| "fneg PInf = NInf"

fun fadd :: "fl \<Rightarrow> fl \<Rightarrow> fl" where
  "fadd NaN b = NaN"
| "fadd a NaN = NaN"
| "fadd (Fin a) (Fin b) = Fin (a + b)"
| "fadd PInf NInf = NaN"
| "fadd NInf PInf = NaN"
| "fadd PInf b = PInf"
| "fadd a PInf = PInf"
| "fadd NInf b = NInf"
| "fadd a NInf = NInf"

definition fsub :: "fl \<Rightarrow> fl \<Rightarrow> fl" where
  "fsub a b = fadd a (fneg b)"

text \<open>\<open>a ** 2\<close>\<close>

fun fsq :: "fl \<Rightarrow> fl" where
  "fsq NaN = NaN"
| "fsq NInf = PInf"
| "fsq (Fin a) = Fin (a * a)"
| "fsq PInf = PInf"

text \<open>
  numpy's true division: a finite value divided by zero is an infinity of its sign,
  \<open>0 / 0\<close> and \<open>inf / inf\<close> are \<open>NaN\<close>.
\<close>

fun fdiv :: "fl \<Rightarrow> fl \<Rightarrow> fl" where
  "fdiv NaN b = NaN"
| "fdiv a NaN = NaN"
| "fdiv (Fin a) (Fin b) =
     (if b \<noteq> 0 then Fin (a / b)
      else if a = 0 then NaN
      else if 0 < a then PInf else NInf)"
| "fdiv (Fin a) PInf = Fin 0"
| "fdiv (Fin a) NInf = Fin 0"
| "fdiv PInf (Fin b) = (if 0 \<le> b then PInf else NInf)"
| "fdiv NInf (Fin b) = (if 0 \<le> b then NInf else PInf)"
| "fdiv PInf b = NaN"
| "fdiv NInf b = NaN"

fun fsqrt :: "fl \<Rightarrow> fl" where
  "fsqrt NaN = NaN"
| "fsqrt NInf = NaN"
| "fsqrt (Fin a) = (if a < 0 then NaN else Fin (sqrt a))"
| "fsqrt PInf = PInf"

fun fabs :: "fl \<Rightarrow> fl" where
  "fabs NaN = NaN"
| "fabs NInf = PInf"
| "fabs (Fin a) = Fin \<bar>a\<bar>"
| "fabs PInf = PInf"

text \<open>\<open>a < b\<close> on floats: false as soon as one side is \<open>NaN\<close>.\<close>

fun flt :: "fl \<Rightarrow> fl \<Rightarrow> bool" where
  "flt NaN b = False"
| "flt a NaN = False"
| "flt (Fin a) (Fin b) = (a < b)"
| "flt NInf NInf = False"
| "flt NInf b = True"
| "flt a NInf = False"
| "flt PInf b = False"
| "flt a PInf = True"

definition fgt :: "fl \<Rightarrow> fl \<Rightarrow> bool" where
  "fgt a b = flt b a"

definition notna :: "fl \<Rightarrow> bool" where
  "notna a = (a \<noteq> NaN)"

primrec fsum :: "fl list \<Rightarrow> fl" where
  "fsum [] = Fin 0"
| "fsum (v # vs) = fadd v (fsum vs)"

section \<open>Series and tables\<close>

text \<open>
  A pandas Series is a list of rows, each an index label with its cell; the labels need
  not be ascending nor distinct. A DataFrame is the list of its named columns, in column
  order; all columns of one table carry the same labels.
\<close>

type_synonym label = int
type_synonym series = "(label \<times> fl) list"
type_synonym dataframe = "(string \<times> series) list"

text \<open>\<open>df[name]\<close>\<close>

definition getitem :: "dataframe \<Rightarrow> string \<Rightarrow> py_error + series" where
  "getitem df name = (case map_of df name of None \<Rightarrow> Inl KeyError | Some s \<Rightarrow> Inr s)"

text \<open>\<open>df[name] = s\<close>: replaces the column of that name, or appends a new last column.\<close>

definition setitem :: "dataframe \<Rightarrow> string \<Rightarrow> series \<Rightarrow> dataframe" where
  "setitem df name s =
     (if name \<in> set (map fst df)
      then map (\<lambda>(k, v). if k = name then (k, s) else (k, v)) df
      else df @ [(name, s)])"

definition notna_values :: "series \<Rightarrow> fl list" where
  "notna_values x = filter notna (map snd x)"

text \<open>\<open>x.mean()\<close> skips missing cells; with none left the result is \<open>NaN\<close>.\<close>

definition series_mean :: "series \<Rightarrow> fl" where
  "series_mean x =
     (let vs = notna_values x; count = length vs
      in if 0 < count then fdiv (fsum vs) (Fin (real count)) else NaN)"

text \<open>
  \<open>x.std()\<close>: the sample standard deviation (\<open>ddof = 1\<close>) of the cells that are not
  missing, \<open>NaN\<close> when at most one is left.
\<close>

definition series_var :: "series \<Rightarrow> fl" where
  "series_var x =
     (let vs = notna_values x; count = length vs
      in if count \<le> 1 then NaN
         else let avg = fdiv (fsum vs) (Fin (real count))
              in fdiv (fsum (map (\<lambda>v. fsq (fsub avg v)) vs)) (Fin (real (count - 1))))"

definition series_std :: "series \<Rightarrow> fl" where
  "series_std x = fsqrt (series_var x)"

text \<open>\<open>x.min()\<close> skips missing cells; with none left the result is \<open>NaN\<close>.\<close>

definition fmin :: "fl \<Rightarrow> fl \<Rightarrow> fl" where
  "fmin a b = (if flt b a then b else a)"

definition series_min :: "series \<Rightarrow> fl" where
  "series_min x = (case notna_values x of [] \<Rightarrow> NaN | v # vs \<Rightarrow> foldl fmin v vs)"

definition series_sub :: "series \<Rightarrow> fl \<Rightarrow> series" where
  "series_sub x m = map (\<lambda>(l, v). (l, fsub v m)) x"

definition series_div :: "series \<Rightarrow> fl \<Rightarrow> series" where
  "series_div x s = map (\<lambda>(l, v). (l, fdiv v s)) x"

definition series_abs :: "series \<Rightarrow> series" where
  "series_abs x = map (\<lambda>(l, v). (l, fabs v)) x"

definition series_gt :: "series \<Rightarrow> fl \<Rightarrow> (label \<times> bool) list" where
  "series_gt x t = map (\<lambda>(l, v). (l, fgt v t)) x"

text \<open>\<open>x.diff()\<close>: the first row is missing, every other row is its cell minus the one before.\<close>

fun diff_from :: "fl \<Rightarrow> series \<Rightarrow> series" where
  "diff_from p [] = []"
| "diff_from p ((l, v) # xs) = (l, fsub v p) # diff_from v xs"

fun series_diff :: "series \<Rightarrow> series" where
  "series_diff [] = []"
| "series_diff ((l, v) # xs) = (l, NaN) # diff_from v xs"

text \<open>
  \<open>x.iloc[start:stop]\<close>, with Python's slice bounds: a negative bound counts from the
  end, and both are clipped to the length.
\<close>

definition slice_bound :: "nat \<Rightarrow> int \<Rightarrow> nat" where
  "slice_bound n i = (if i < 0 then nat (max 0 (int n + i)) else min n (nat i))"

definition iloc :: "int \<Rightarrow> int \<Rightarrow> 'a list \<Rightarrow> 'a list" where
  "iloc start stop xs =
     (let n = length xs in drop (slice_bound n start) (take (slice_bound n stop) xs))"

text \<open>
  \<open>x.idxmin()\<close>: the label of the first row holding the smallest cell, missing cells
  skipped. An empty series raises ValueError; so does a series of missing cells only
  (pandas before 3.0 returned the float \<open>nan\<close> there, with a deprecation warning).
\<close>

definition idxmin_step :: "label \<times> fl \<Rightarrow> label \<times> fl \<Rightarrow> label \<times> fl" where
  "idxmin_step best row = (if flt (snd row) (snd best) then row else best)"

definition series_idxmin :: "series \<Rightarrow> py_error + label" where
  "series_idxmin x =
     (case filter (\<lambda>row. notna (snd row)) x of
        [] \<Rightarrow> Inl ValueError
      | r # rs \<Rightarrow> Inr (fst (foldl idxmin_step r rs)))"

section \<open>Outliers and the temperature turnaround (u03\_oop.py)\<close>

definition find_outlier_indices :: "series \<Rightarrow> fl \<Rightarrow> label list" where
  "find_outlier_indices x threshold =
     (let z_scores = series_div (series_sub x (series_mean x)) (series_std x);
          outliers = series_gt (series_abs z_scores) threshold
      in map fst (filter snd outliers))"

definition find_temp_turnaround_point :: "dataframe \<Rightarrow> py_error + label" where
  "find_temp_turnaround_point df =
     (case getitem df ''Temperature (K)'' of
        Inl e \<Rightarrow> Inl e
      | Inr temp \<Rightarrow>
          (let outlier_indices = find_outlier_indices (series_diff temp) (Fin 3)
           in if length outlier_indices = 0
              then series_idxmin (series_abs (series_diff (iloc 20 (- 20) temp)))
              else Inr (hd outlier_indices)))"

text \<open>\<open>x[mask]\<close> with a boolean array: the rows at the positions where the mask is true.\<close>

definition mask_select :: "series \<Rightarrow> bool list \<Rightarrow> series" where
  "mask_select x flags = map fst (filter snd (zip x flags))"

section \<open>Nominal values by clustering (u03\_oop.py)\<close>

text \<open>
  \<open>vals.values\<close> as finite numbers. StandardScaler refuses an empty array and
  infinities, DBSCAN refuses missing values: all with ValueError.
\<close>

fun finite_values :: "series \<Rightarrow> real list option" where
  "finite_values [] = Some []"
| "finite_values ((l, Fin a) # xs) = map_option ((#) a) (finite_values xs)"
| "finite_values ((l, v) # xs) = None"

text \<open>
  \<open>StandardScaler().fit_transform\<close> on one feature: centre by the mean and divide by
  the population standard deviation, a zero deviation being replaced by 1.
\<close>

definition fit_transform :: "real list \<Rightarrow> real list" where
  "fit_transform X =
     (let n = real (length X);
          mean = sum_list X / n;
          var = sum_list (map (\<lambda>v. (v - mean) * (v - mean)) X) / n;
          scale = (if sqrt var = 0 then 1 else sqrt var)
      in map (\<lambda>v. (v - mean) / scale) X)"

text \<open>
  DBSCAN as scikit-learn computes it: the neighbourhood of a sample holds every sample
  (itself too) at distance at most \<open>eps\<close>; a core sample has at least \<open>min_samples\<close>
  neighbours; the samples are visited in order, and every unlabelled core sample starts
  a cluster that a depth-first search grows through core samples.
\<close>

definition radius_neighbors :: "real \<Rightarrow> real list \<Rightarrow> nat list list" where
  "radius_neighbors eps X = map (\<lambda>x. filter (\<lambda>j. \<bar>X ! j - x\<bar> \<le> eps) [0..<length X]) X"

function dbscan_dfs ::
  "bool list \<Rightarrow> nat list list \<Rightarrow> nat \<Rightarrow> nat \<Rightarrow> nat list \<Rightarrow> int list \<Rightarrow> int list" where
  "dbscan_dfs is_core neighborhoods label_num i stack labels =
     (if i < length labels \<and> labels ! i = - 1
      then
        (let labels' = labels[i := int label_num];
             stack' =
               (if i < length is_core \<and> is_core ! i \<and> i < length neighborhoods
                then rev (filter (\<lambda>v. v < length labels' \<and> labels' ! v = - 1) (neighborhoods ! i))
                       @ stack
                else stack)
         in case stack' of
              [] \<Rightarrow> labels'
            | j # rest \<Rightarrow> dbscan_dfs is_core neighborhoods label_num j rest labels')
      else
        (case stack of
           [] \<Rightarrow> labels
         | j # rest \<Rightarrow> dbscan_dfs is_core neighborhoods label_num j rest labels))"
  by pat_completeness auto
termination
proof (relation "measures [\<lambda>(c, nb, k, i, st, ls). length (filter (\<lambda>l. l = - 1) ls),
                           \<lambda>(c, nb, k, i, st, ls). length st]", goal_cases)
  case 1
  show ?case by simp
next
  case (2 is_core neighborhoods label_num i stack labels labels' stack' j rest)
  have dec: "length (filter (\<lambda>l. l = - 1) (ls[k := int m])) < length (filter (\<lambda>l. l = - 1) ls)"
    if "k < length ls" "ls ! k = - 1" for ls :: "int list" and k m
    using that
  proof (induction ls arbitrary: k)
    case Nil
    then show ?case by simp
  next
    case (Cons a ls)
    show ?case
    proof (cases k)
      case 0
      with Cons.prems show ?thesis by simp
    next
      case (Suc k')
      with Cons.prems Cons.IH [of k'] show ?thesis by simp
    qed
  qed
  from 2 dec [of i labels label_num] show ?case by simp
next
  case (3 is_core neighborhoods label_num i stack labels j rest)
  then show ?case by simp
qed

fun dbscan_loop ::
  "bool list \<Rightarrow> nat list list \<Rightarrow> nat list \<Rightarrow> nat \<Rightarrow> int list \<Rightarrow> int list" where
  "dbscan_loop is_core neighborhoods [] label_num labels = labels"
| "dbscan_loop is_core neighborhoods (i # rest) label_num labels =
     (if labels ! i \<noteq> - 1 \<or> \<not> is_core ! i
      then dbscan_loop is_core neighborhoods rest label_num labels
      else dbscan_loop is_core neighborhoods rest (label_num + 1)
             (dbscan_dfs is_core neighborhoods label_num i [] labels))"

definition dbscan_inner :: "bool list \<Rightarrow> nat list list \<Rightarrow> int list \<Rightarrow> int list" where
  "dbscan_inner is_core neighborhoods labels =
     dbscan_loop is_core neighborhoods [0..<length labels] 0 labels"

definition dbscan_fit_predict :: "real \<Rightarrow> nat \<Rightarrow> real list \<Rightarrow> int list" where
  "dbscan_fit_predict eps min_samples X =
     (let neighborhoods = radius_neighbors eps X;
          n_neighbors = map length neighborhoods;
          labels = replicate (length X) (- 1);
          core_samples = map (\<lambda>n. min_samples \<le> n) n_neighbors
      in dbscan_inner core_samples neighborhoods labels)"

text \<open>
  scikit-learn checks its arguments before it clusters: at least one sample, finite
  values only, \<open>eps > 0\<close> and \<open>min_samples \<ge> 1\<close>; each failure is a ValueError.
\<close>

definition label_clusters :: "series \<Rightarrow> real \<Rightarrow> int \<Rightarrow> py_error + int list" where
  "label_clusters vals eps min_samples =
     (case finite_values vals of
        None \<Rightarrow> Inl ValueError
      | Some reshaped_vals \<Rightarrow>
          if reshaped_vals = [] then Inl ValueError
          else
            (let reshaped_normalized_vals = fit_transform reshaped_vals
             in if eps \<le> 0 \<or> min_samples < 1 then Inl ValueError
                else Inr (dbscan_fit_predict eps (nat min_samples) reshaped_normalized_vals)))"

text \<open>\<open>np.unique\<close>: the distinct labels, sorted.\<close>

definition np_unique :: "int list \<Rightarrow> int list" where
  "np_unique ls = sort (remdups ls)"

text \<open>\<open>round(v, 1)\<close>: to one decimal place, a tie going to the even digit.\<close>

definition round_half_even :: "real \<Rightarrow> int" where
  "round_half_even y =
     (let f = \<lfloor>y\<rfloor>; d = y - of_int f
      in if d < 1 / 2 then f else if 1 / 2 < d then f + 1 else if even f then f else f + 1)"

fun round1 :: "fl \<Rightarrow> fl" where
  "round1 (Fin a) = Fin (of_int (round_half_even (a * 10)) / 10)"
| "round1 v = v"

definition unique_values :: "series \<Rightarrow> real \<Rightarrow> int \<Rightarrow> py_error + fl list" where
  "unique_values x eps min_samples =
     (case label_clusters x eps min_samples of
        Inl e \<Rightarrow> Inl e
      | Inr cluster_labels \<Rightarrow>
          Inr (map (\<lambda>i. round1 (series_mean (mask_select x (map (\<lambda>l. l = i) cluster_labels))))
                 (np_unique cluster_labels)))"

section \<open>Reading instrument files (u02\_parsing.py)\<close>

text \<open>
  A file is the list of its lines, a file system a partial map from paths to files.
  \<open>csv.reader\<close> splits a line at the delimiter and yields the empty row for an empty
  line; quoted fields are outside the model.
\<close>

type_synonym filesystem = "string \<Rightarrow> string list option"

fun split_on :: "char \<Rightarrow> string \<Rightarrow> string list" where
  "split_on d [] = [[]]"
| "split_on d (c # cs) =
     (if c = d then [] # split_on d cs
      else (case split_on d cs of [] \<Rightarrow> [[c]] | f # fs \<Rightarrow> (c # f) # fs))"

definition csv_row :: "char \<Rightarrow> string \<Rightarrow> string list" where
  "csv_row d line = (if line = [] then [] else split_on d line)"

definition tab :: char where
  "tab = CHR 0x09"

text \<open>The loop of \<open>get_header\<close>; \<open>row[0]\<close> raises IndexError on an empty row.\<close>

fun header_loop :: "string list \<Rightarrow> string list list \<Rightarrow> py_error + string list list" where
  "header_loop [] header = Inr header"
| "header_loop (line # rest) header =
     (let row = csv_row tab line; header' = header @ [row]
      in case row of
           [] \<Rightarrow> Inl IndexError
         | f # fs \<Rightarrow> if f = ''[Data]'' then Inr header' else header_loop rest header')"

definition get_header :: "filesystem \<Rightarrow> string \<Rightarrow> py_error + string list list" where
  "get_header fs file_path =
     (case fs file_path of
        None \<Rightarrow> Inl FileNotFoundError
      | Some lines \<Rightarrow> header_loop lines [])"

text \<open>\<open>df.shape[1]\<close>\<close>

definition shape1 :: "dataframe \<Rightarrow> nat" where
  "shape1 df = length df"

text \<open>
  \<open>pd.read_csv\<close> is a parameter of \<open>get_data\<close>: a function of the file's lines, the
  separator (\<open>None\<close> when the call leaves it to pandas) and \<open>skiprows\<close>.
\<close>

type_synonym csv_reader = "string list \<Rightarrow> char option \<Rightarrow> nat \<Rightarrow> py_error + dataframe"

definition get_data :: "csv_reader \<Rightarrow> filesystem \<Rightarrow> string \<Rightarrow> py_error + dataframe" where
  "get_data read_csv fs file_path =
     (case get_header fs file_path of
        Inl e \<Rightarrow> Inl e
      | Inr header \<Rightarrow>
          (let skip_rows = length header
           in case fs file_path of
                None \<Rightarrow> Inl FileNotFoundError
              | Some lines \<Rightarrow>
                  (case read_csv lines (Some tab) skip_rows of
                     Inl e \<Rightarrow> Inl e
                   | Inr df \<Rightarrow>
                       if shape1 df = 1 then read_csv lines None skip_rows else Inr df)))"

text \<open>
  A reader for plain files, after the documentation of \<open>pandas.read_csv\<close>: blank lines
  are skipped, the first line left is the header, the default separator is the comma, a
  short row is filled with missing cells, and the rows are labelled from 0. The fragment
  covers unquoted files with distinct non-empty column names, no row longer than the
  header, and cells that are empty or unsigned decimal integers; every other file is
  \<open>Unsupported\<close>.
\<close>

definition digit_value :: "char \<Rightarrow> nat" where
  "digit_value c = of_char c - 48"

definition is_digit :: "char \<Rightarrow> bool" where
  "is_digit c = (48 \<le> (of_char c :: nat) \<and> (of_char c :: nat) \<le> 57)"

definition parse_cell :: "string \<Rightarrow> fl option" where
  "parse_cell s =
     (if s = [] then Some NaN
      else if list_all is_digit s
      then Some (Fin (real (foldl (\<lambda>n c. 10 * n + digit_value c) 0 s)))
      else None)"

definition plain_column :: "string list list \<Rightarrow> nat \<Rightarrow> series option" where
  "plain_column rows j =
     (let cells = map (\<lambda>r. if j < length r then parse_cell (r ! j) else Some NaN) rows
      in if list_all (\<lambda>c. c \<noteq> None) cells
         then Some (zip (map int [0..<length rows]) (map the cells))
         else None)"

definition read_csv_plain :: csv_reader where
  "read_csv_plain lines sep skiprows =
     (let d = (case sep of None \<Rightarrow> CHR '','' | Some c \<Rightarrow> c)
      in case filter (\<lambda>l. l \<noteq> []) (drop skiprows lines) of
           [] \<Rightarrow> Inl EmptyDataError
         | h # body \<Rightarrow>
             (let names = split_on d h;
                  rows = map (split_on d) body;
                  cols = map (plain_column rows) [0..<length names]
              in if distinct names \<and> [] \<notin> set names
                    \<and> list_all (\<lambda>r. length r \<le> length names) rows
                    \<and> list_all (\<lambda>c. c \<noteq> None) cols
                 then Inr (zip names (map the cols))
                 else Inl Unsupported))"

text \<open>Which moment columns a table fills decides the kind of measurement.\<close>

definition measurement_type :: "dataframe \<Rightarrow> py_error + string" where
  "measurement_type df =
     (let meas_type = ''''
      in case getitem df ''Moment (emu)'' of
           Inl e \<Rightarrow> Inl e
         | Inr moment \<Rightarrow>
             if list_all notna (map snd moment) then Inr ''VSM''
             else
               (case getitem df ''DC Moment Free Ctr (emu)'' of
                  Inl e \<Rightarrow> Inl e
                | Inr dc_moment \<Rightarrow>
                    if list_all notna (map snd dc_moment) then Inr ''DC'' else Inr meas_type))"

text \<open>
  Tables are objects: a heap lists the tables allocated so far, and a reference is a
  position in it. \<open>pd.DataFrame()\<close> allocates an empty table, \<open>new_df[name] = s\<close> writes
  to the table a reference points to.
\<close>

type_synonym ref = nat
type_synonym heap = "dataframe list"

definition new_DataFrame :: "heap \<Rightarrow> ref \<times> heap" where
  "new_DataFrame h = (length h, h @ [[]])"

definition deref :: "heap \<Rightarrow> ref \<Rightarrow> dataframe" where
  "deref h r = h ! r"

definition heap_setitem :: "heap \<Rightarrow> ref \<Rightarrow> string \<Rightarrow> series \<Rightarrow> heap" where
  "heap_setitem h r name s = h[r := setitem (deref h r) name s]"

text \<open>
  \<open>simplify_magnetic_df\<close>, statement by statement: the result is the value returned or
  the exception raised, with the heap as the call leaves it.
\<close>

definition simplify_magnetic_df :: "ref \<Rightarrow> heap \<Rightarrow> (py_error + ref) \<times> heap" where
  "simplify_magnetic_df df h0 =
     (let (new_df, h1) = new_DataFrame h0
      in case getitem (deref h1 df) ''Time Stamp (sec)'' of
           Inl e \<Rightarrow> (Inl e, h1)
         | Inr ts \<Rightarrow>
      (let h2 = heap_setitem h1 new_df ''time'' (series_sub ts (series_min ts))
       in case getitem (deref h2 df) ''Temperature (K)'' of
            Inl e \<Rightarrow> (Inl e, h2)
          | Inr temp \<Rightarrow>
      (let h3 = heap_setitem h2 new_df ''temp'' temp
       in case getitem (deref h3 df) ''Magnetic Field (Oe)'' of
            Inl e \<Rightarrow> (Inl e, h3)
          | Inr field \<Rightarrow>
      (let h4 = heap_setitem h3 new_df ''field'' field
       in case measurement_type (deref h4 df) of
            Inl e \<Rightarrow> (Inl e, h4)
          | Inr meas_type \<Rightarrow>
              if meas_type = ''VSM'' then
                (case getitem (deref h4 df) ''Moment (emu)'' of
                   Inl e \<Rightarrow> (Inl e, h4)
                 | Inr moment \<Rightarrow>
                (let h5 = heap_setitem h4 new_df ''moment'' moment
                 in case getitem (deref h5 df) ''M. Std. Err. (emu)'' of
                      Inl e \<Rightarrow> (Inl e, h5)
                    | Inr err \<Rightarrow> (Inr new_df, heap_setitem h5 new_df ''moment_err'' err)))
              else if meas_type = ''DC'' then
                (case getitem (deref h4 df) ''DC Moment Free Ctr (emu)'' of
                   Inl e \<Rightarrow> (Inl e, h4)
                 | Inr moment \<Rightarrow>
                (let h5 = heap_setitem h4 new_df ''moment'' moment
                 in case getitem (deref h5 df) ''DC Moment Err Free Ctr (emu)'' of
                      Inl e \<Rightarrow> (Inl e, h5)
                    | Inr err \<Rightarrow> (Inr new_df, heap_setitem h5 new_df ''moment_err'' err)))
              else (Inr new_df, h4)))))"

section \<open>Properties\<close>

subsection \<open>Float arithmetic\<close>



lemma fadd_NaN_right: "fadd a NaN = NaN"
  by (cases a) simp_all


subsection \<open>The outlier detector\<close>















subsection \<open>The kind of measurement\<close>

text \<open>
  Claim C8, as the code has it. On a table that has the column "Moment (emu)":
  the result is VSM when that column has no missing cell, whatever the other columns
  hold; otherwise, when the table has the column "DC Moment Free Ctr (emu)", the result
  is DC when that column has no missing cell and the empty string when it has one, and
  no exception is raised; otherwise reading the absent column raises KeyError.
\<close>

theorem measurement_type_columns_present:
  assumes "map_of df ''Moment (emu)'' = Some m"
  shows "((\<forall>r\<in>set m. snd r \<noteq> NaN) \<longrightarrow> measurement_type df = Inr ''VSM'')
       \<and> (\<forall>d. (\<exists>r\<in>set m. snd r = NaN) \<and> map_of df ''DC Moment Free Ctr (emu)'' = Some d \<longrightarrow>
             measurement_type df = Inr (if \<forall>r\<in>set d. snd r \<noteq> NaN then ''DC'' else ''''))
       \<and> ((\<exists>r\<in>set m. snd r = NaN) \<and> map_of df ''DC Moment Free Ctr (emu)'' = None \<longrightarrow>
             measurement_type df = Inl KeyError)"
  using assms
  by (auto simp: measurement_type_def getitem_def notna_def list_all_iff)

theorem measurement_type_columns_present_witness:
  "measurement_type
     [(''Moment (emu)'', [(0, Fin 1), (1, Fin 2)]),
      (''DC Moment Free Ctr (emu)'', [(0, NaN), (1, NaN)])] = Inr ''VSM''
   \<and> measurement_type
     [(''Moment (emu)'', [(0, NaN), (1, NaN)]),
      (''DC Moment Free Ctr (emu)'', [(0, Fin 1), (1, Fin 2)])] = Inr ''DC''
   \<and> measurement_type
     [(''Moment (emu)'', [(0, NaN), (1, Fin 2)]),
      (''DC Moment Free Ctr (emu)'', [(0, Fin 1), (1, NaN)])] = Inr ''''"
proof -
  let ?a = "[(''Moment (emu)'', [(0, Fin 1), (1, Fin 2)]),
             (''DC Moment Free Ctr (emu)'', [(0, NaN), (1, NaN)])] :: dataframe"
  let ?b = "[(''Moment (emu)'', [(0, NaN), (1, NaN)]),
             (''DC Moment Free Ctr (emu)'', [(0, Fin 1), (1, Fin 2)])] :: dataframe"
  let ?c = "[(''Moment (emu)'', [(0, NaN), (1, Fin 2)]),
             (''DC Moment Free Ctr (emu)'', [(0, Fin 1), (1, NaN)])] :: dataframe"
  have a: "map_of ?a ''Moment (emu)'' = Some [(0, Fin 1), (1, Fin 2)]" by simp
  have b: "map_of ?b ''Moment (emu)'' = Some [(0, NaN), (1, NaN)]" by simp
  have c: "map_of ?c ''Moment (emu)'' = Some [(0, NaN), (1, Fin 2)]" by simp
  have "measurement_type ?a = Inr ''VSM''"
    using measurement_type_columns_present [OF a] by simp
  moreover have "measurement_type ?b = Inr ''DC''"
    using measurement_type_columns_present [OF b] by simp
  moreover have "measurement_type ?c = Inr ''''"
    using measurement_type_columns_present [OF c] by simp
  ultimately show ?thesis by blast
qed

text \<open>
  Claim C8 as stated fails on a table without the column "Moment (emu)": the
  classifier raises KeyError.
\<close>

theorem measurement_type_raises_KeyError:
  "measurement_type [(''DC Moment Free Ctr (emu)'', [(0, Fin 1), (1, Fin 2)])] = Inl KeyError"
  by (simp add: measurement_type_def getitem_def)

subsection \<open>The smallest cell of a series\<close>

lemma flt_trans_le:
  "a \<noteq> NaN \<Longrightarrow> b \<noteq> NaN \<Longrightarrow> c \<noteq> NaN \<Longrightarrow> \<not> flt b a \<Longrightarrow> \<not> flt c b \<Longrightarrow> \<not> flt c a"
  by (cases a; cases b; cases c) auto

lemma flt_antisym:
  "a \<noteq> NaN \<Longrightarrow> b \<noteq> NaN \<Longrightarrow> \<not> flt a b \<Longrightarrow> \<not> flt b a \<Longrightarrow> a = b"
  by (cases a; cases b) auto

lemma flt_irrefl: "\<not> flt a a"
  by (cases a) auto

lemma fmin_notna: "a \<noteq> NaN \<Longrightarrow> b \<noteq> NaN \<Longrightarrow> fmin a b \<noteq> NaN"
  by (simp add: fmin_def)

lemma foldl_fmin_mem: "foldl fmin v vs \<in> set (v # vs)"
proof (induction vs arbitrary: v)
  case Nil
  show ?case by simp
next
  case (Cons a vs)
  from Cons.IH [of "fmin v a"] show ?case by (auto simp: fmin_def split: if_splits)
qed

lemma foldl_fmin_lower:
  assumes "v \<noteq> NaN" "\<forall>u\<in>set vs. u \<noteq> NaN"
  shows "\<forall>u\<in>set (v # vs). \<not> flt u (foldl fmin v vs)"
  using assms
proof (induction vs arbitrary: v)
  case Nil
  show ?case by (simp add: flt_irrefl)
next
  case (Cons a vs)
  have n: "fmin v a \<noteq> NaN" using Cons.prems by (simp add: fmin_notna)
  have rest: "\<forall>u\<in>set vs. u \<noteq> NaN" using Cons.prems by simp
  have r: "foldl fmin (fmin v a) vs \<noteq> NaN"
    using foldl_fmin_mem [of "fmin v a" vs] n rest by auto
  have ih: "\<forall>u\<in>set (fmin v a # vs). \<not> flt u (foldl fmin (fmin v a) vs)"
    using Cons.IH [OF n rest] .
  then have top: "\<not> flt (fmin v a) (foldl fmin (fmin v a) vs)" by simp
  have a: "a \<noteq> NaN" using Cons.prems by simp
  have va: "\<not> flt v (fmin v a)" "\<not> flt a (fmin v a)"
    using Cons.prems by (cases v; cases a; auto simp: fmin_def)+
  have "\<not> flt v (foldl fmin (fmin v a) vs)"
    using flt_trans_le [OF r n Cons.prems(1) top va(1)] .
  moreover have "\<not> flt a (foldl fmin (fmin v a) vs)"
    using flt_trans_le [OF r n a top va(2)] .
  ultimately show ?case using ih by simp
qed

lemma foldl_fmin_eq:
  assumes "v \<noteq> NaN" "\<forall>u\<in>set vs. u \<noteq> NaN"
    and "c \<in> set (v # vs)" and "\<forall>u\<in>set (v # vs). \<not> flt u c"
  shows "foldl fmin v vs = c"
proof -
  let ?r = "foldl fmin v vs"
  have mem: "?r \<in> set (v # vs)" by (rule foldl_fmin_mem)
  then have r: "?r \<noteq> NaN" using assms(1,2) by auto
  have c: "c \<noteq> NaN" using assms(1,2,3) by auto
  have 1: "\<not> flt ?r c" using assms(4) mem by blast
  have 2: "\<not> flt c ?r" using foldl_fmin_lower [OF assms(1,2)] assms(3) by blast
  from flt_antisym [OF r c 1 2] show ?thesis .
qed

lemma notna_values_series_sub:
  "notna_values (series_sub x (Fin m)) = map (\<lambda>u. fsub u (Fin m)) (notna_values x)"
proof (induction x)
  case Nil
  show ?case by (simp add: notna_values_def series_sub_def)
next
  case (Cons r x)
  obtain l v where r: "r = (l, v)" by (cases r)
  from Cons show ?case
    by (cases v) (simp_all add: notna_values_def series_sub_def r notna_def fsub_def)
qed

text \<open>Subtracting a finite minimum from every cell leaves a series whose minimum is 0.\<close>

lemma series_min_sub:
  assumes "series_min x = Fin m"
  shows "series_min (series_sub x (Fin m)) = Fin 0"
proof -
  from assms obtain v vs where nv: "notna_values x = v # vs" and f: "foldl fmin v vs = Fin m"
    by (auto simp: series_min_def split: list.splits)
  have nn: "\<forall>u\<in>set (v # vs). u \<noteq> NaN"
    using nv [symmetric] by (auto simp: notna_values_def notna_def)
  then have v: "v \<noteq> NaN" and vs: "\<forall>u\<in>set vs. u \<noteq> NaN" by simp_all
  have mem: "Fin m \<in> set (v # vs)" using foldl_fmin_mem [of v vs] f by simp
  have low: "\<forall>u\<in>set (v # vs). \<not> flt u (Fin m)"
    using foldl_fmin_lower [OF v vs] f by simp
  let ?g = "\<lambda>u. fsub u (Fin m)"
  have nv': "notna_values (series_sub x (Fin m)) = ?g v # map ?g vs"
    by (simp add: notna_values_series_sub nv)
  have g_notna: "?g u \<noteq> NaN" if "u \<noteq> NaN" for u
    using that by (cases u) (simp_all add: fsub_def)
  have g_low: "\<not> flt (?g u) (Fin 0)" if "u \<noteq> NaN" "\<not> flt u (Fin m)" for u
    using that by (cases u) (simp_all add: fsub_def)
  have 1: "?g v \<noteq> NaN" using v by (rule g_notna)
  have 2: "\<forall>u\<in>set (map ?g vs). u \<noteq> NaN" using vs g_notna by auto
  have 3: "Fin 0 \<in> set (?g v # map ?g vs)"
  proof -
    have "?g (Fin m) = Fin 0" by (simp add: fsub_def)
    with mem show ?thesis by (metis image_eqI list.set_map list.simps(9))
  qed
  have 4: "\<forall>u\<in>set (?g v # map ?g vs). \<not> flt u (Fin 0)"
    using low nn g_low by auto
  have "foldl fmin (?g v) (map ?g vs) = Fin 0"
    using foldl_fmin_eq [OF 1 2 3 4] .
  then show ?thesis by (simp add: series_min_def nv')
qed

subsection \<open>The column normalizer\<close>

lemma heap_setitem_length: "length (heap_setitem h r name s) = length h"
  by (simp add: heap_setitem_def)

lemma deref_heap_setitem_other:
  "r' \<noteq> r \<Longrightarrow> deref (heap_setitem h r name s) r' = deref h r'"
  by (simp add: heap_setitem_def deref_def)

lemma deref_heap_setitem_same:
  "r < length h \<Longrightarrow> deref (heap_setitem h r name s) r = setitem (deref h r) name s"
  by (simp add: heap_setitem_def deref_def)

lemma deref_new: "r < length h \<Longrightarrow> deref (h @ [[]]) r = deref h r"
  by (simp add: deref_def nth_append)

lemma deref_new_same: "deref (h @ [[]]) (length h) = []"
  by (simp add: deref_def)

lemma simplify_columns:
  assumes "df < length h"
    and "map_of (deref h df) ''Time Stamp (sec)'' = Some ts"
    and "simplify_magnetic_df df h = (Inr new_df, h')"
  shows "map_of (deref h' new_df) ''time'' = Some (series_sub ts (series_min ts))
       \<and> map_of (deref h' new_df) ''temp'' = map_of (deref h df) ''Temperature (K)''
       \<and> map_of (deref h' new_df) ''field'' = map_of (deref h df) ''Magnetic Field (Oe)''"
  using assms
  by (auto simp: simplify_magnetic_df_def new_DataFrame_def Let_def getitem_def
      deref_heap_setitem_other deref_heap_setitem_same heap_setitem_length deref_new
      deref_new_same setitem_def
      split: sum.splits option.splits if_splits)

lemma simplify_returns:
  assumes "df < length h"
    and "\<forall>c\<in>set [''Time Stamp (sec)'', ''Temperature (K)'', ''Magnetic Field (Oe)'',
          ''Moment (emu)'', ''M. Std. Err. (emu)'', ''DC Moment Free Ctr (emu)'',
          ''DC Moment Err Free Ctr (emu)'']. map_of (deref h df) c \<noteq> None"
  shows "\<exists>h'. simplify_magnetic_df df h = (Inr (length h), h')"
  using assms
  by (auto simp: simplify_magnetic_df_def new_DataFrame_def Let_def getitem_def
      deref_heap_setitem_other heap_setitem_length deref_new measurement_type_def
      split: sum.splits option.splits if_splits)

text \<open>Two instrument tables: a VSM measurement of two rows, and a row without a time stamp.\<close>

definition vsm_table :: dataframe where
  "vsm_table =
     [(''Time Stamp (sec)'', [(0, Fin 100), (1, Fin 103)]),
      (''Temperature (K)'', [(0, Fin 5), (1, Fin 6)]),
      (''Magnetic Field (Oe)'', [(0, Fin 1000), (1, Fin 1000)]),
      (''Moment (emu)'', [(0, Fin 2), (1, Fin 3)]),
      (''M. Std. Err. (emu)'', [(0, Fin 0), (1, Fin 0)]),
      (''DC Moment Free Ctr (emu)'', [(0, NaN), (1, NaN)]),
      (''DC Moment Err Free Ctr (emu)'', [(0, NaN), (1, NaN)])]"

definition unstamped_table :: dataframe where
  "unstamped_table =
     [(''Time Stamp (sec)'', [(0, NaN)]),
      (''Temperature (K)'', [(0, Fin 5)]),
      (''Magnetic Field (Oe)'', [(0, Fin 1000)]),
      (''Moment (emu)'', [(0, Fin 2)]),
      (''M. Std. Err. (emu)'', [(0, Fin 0)])]"

lemma simplify_vsm_table:
  "simplify_magnetic_df 0 [vsm_table] =
     (Inr 1, [vsm_table,
        [(''time'', [(0, Fin 0), (1, Fin 3)]),
         (''temp'', [(0, Fin 5), (1, Fin 6)]),
         (''field'', [(0, Fin 1000), (1, Fin 1000)]),
         (''moment'', [(0, Fin 2), (1, Fin 3)]),
         (''moment_err'', [(0, Fin 0), (1, Fin 0)])]])"
  by (simp add: simplify_magnetic_df_def new_DataFrame_def Let_def getitem_def vsm_table_def
      heap_setitem_def deref_def setitem_def measurement_type_def notna_def
      series_sub_def series_min_def notna_values_def fmin_def fsub_def)

lemma simplify_unstamped_table:
  "simplify_magnetic_df 0 [unstamped_table] =
     (Inr 1, [unstamped_table,
        [(''time'', [(0, NaN)]),
         (''temp'', [(0, Fin 5)]),
         (''field'', [(0, Fin 1000)]),
         (''moment'', [(0, Fin 2)]),
         (''moment_err'', [(0, Fin 0)])]])"
  by (simp add: simplify_magnetic_df_def new_DataFrame_def Let_def getitem_def
      unstamped_table_def heap_setitem_def deref_def setitem_def measurement_type_def
      notna_def series_sub_def series_min_def notna_values_def fmin_def fsub_def)

text \<open>
  Claim C9, as the code has it. Take a table with a time stamp column whose smallest
  cell is a finite number \<open>m\<close> (so at least one time stamp is not missing, and none is
  \<open>-inf\<close>). The normalizer returns a new table as soon as the seven instrument columns
  are present; and whenever it returns one, its "time" column is the time stamp column
  with \<open>m\<close> subtracted from every cell, the smallest cell of "time" is exactly 0, and
  "temp" and "field" are the temperature and field columns unchanged.
\<close>

theorem simplify_magnetic_df_time_from_zero:
  assumes "df < length h"
    and "map_of (deref h df) ''Time Stamp (sec)'' = Some ts"
    and "series_min ts = Fin m"
  shows "((\<forall>c\<in>set [''Time Stamp (sec)'', ''Temperature (K)'', ''Magnetic Field (Oe)'',
             ''Moment (emu)'', ''M. Std. Err. (emu)'', ''DC Moment Free Ctr (emu)'',
             ''DC Moment Err Free Ctr (emu)'']. map_of (deref h df) c \<noteq> None)
           \<longrightarrow> (\<exists>h'. simplify_magnetic_df df h = (Inr (length h), h')))
       \<and> (\<forall>new_df h'. simplify_magnetic_df df h = (Inr new_df, h') \<longrightarrow>
             map_of (deref h' new_df) ''time'' = Some (map (\<lambda>(l, v). (l, fsub v (Fin m))) ts)
           \<and> series_min (map (\<lambda>(l, v). (l, fsub v (Fin m))) ts) = Fin 0
           \<and> map_of (deref h' new_df) ''temp'' = map_of (deref h df) ''Temperature (K)''
           \<and> map_of (deref h' new_df) ''field'' = map_of (deref h df) ''Magnetic Field (Oe)'')"
proof (intro conjI impI allI)
  assume "\<forall>c\<in>set [''Time Stamp (sec)'', ''Temperature (K)'', ''Magnetic Field (Oe)'',
             ''Moment (emu)'', ''M. Std. Err. (emu)'', ''DC Moment Free Ctr (emu)'',
             ''DC Moment Err Free Ctr (emu)'']. map_of (deref h df) c \<noteq> None"
  with assms(1) show "\<exists>h'. simplify_magnetic_df df h = (Inr (length h), h')"
    by (rule simplify_returns)
next
  fix new_df h'
  assume ret: "simplify_magnetic_df df h = (Inr new_df, h')"
  note cols = simplify_columns [OF assms(1,2) ret]
  show "map_of (deref h' new_df) ''time'' = Some (map (\<lambda>(l, v). (l, fsub v (Fin m))) ts)"
    using cols assms(3) by (simp add: series_sub_def)
  show "series_min (map (\<lambda>(l, v). (l, fsub v (Fin m))) ts) = Fin 0"
    using series_min_sub [OF assms(3)] by (simp add: series_sub_def)
  show "map_of (deref h' new_df) ''temp'' = map_of (deref h df) ''Temperature (K)''"
    using cols by simp
  show "map_of (deref h' new_df) ''field'' = map_of (deref h df) ''Magnetic Field (Oe)''"
    using cols by simp
qed

text \<open>
  On the VSM table the time stamps 100 and 103 become the times 0 and 3, and the
  temperature column is carried over.
\<close>

theorem simplify_magnetic_df_time_from_zero_witness:
  "fst (simplify_magnetic_df 0 [vsm_table]) = Inr 1
   \<and> map_of (deref (snd (simplify_magnetic_df 0 [vsm_table])) 1) ''time''
       = Some [(0, Fin 0), (1, Fin 3)]
   \<and> series_min [(0, Fin 0), (1, Fin 3)] = Fin 0
   \<and> map_of (deref (snd (simplify_magnetic_df 0 [vsm_table])) 1) ''temp''
       = Some [(0, Fin 5), (1, Fin 6)]"
proof -
  let ?ts = "[(0, Fin 100), (1, Fin 103)] :: series"
  have 1: "0 < length [vsm_table]" by simp
  have 2: "map_of (deref [vsm_table] 0) ''Time Stamp (sec)'' = Some ?ts"
    by (simp add: deref_def vsm_table_def)
  have 3: "series_min ?ts = Fin 100"
    by (simp add: series_min_def notna_values_def notna_def fmin_def)
  have ret: "simplify_magnetic_df 0 [vsm_table]
      = (fst (simplify_magnetic_df 0 [vsm_table]), snd (simplify_magnetic_df 0 [vsm_table]))"
    by simp
  have r: "fst (simplify_magnetic_df 0 [vsm_table]) = Inr 1"
    by (simp add: simplify_vsm_table)
  from simplify_magnetic_df_time_from_zero [OF 1 2 3] ret r
  have "map_of (deref (snd (simplify_magnetic_df 0 [vsm_table])) 1) ''time''
          = Some (map (\<lambda>(l, v). (l, fsub v (Fin 100))) ?ts)
      \<and> series_min (map (\<lambda>(l, v). (l, fsub v (Fin 100))) ?ts) = Fin 0
      \<and> map_of (deref (snd (simplify_magnetic_df 0 [vsm_table])) 1) ''temp''
          = map_of (deref [vsm_table] 0) ''Temperature (K)''"
    by metis
  then show ?thesis
    using r by (simp add: fsub_def deref_def vsm_table_def)
qed

text \<open>
  Claim C9 as stated fails on a non-empty table whose time stamps are all missing: the
  minimum is \<open>NaN\<close>, so is every cell of "time", and the minimum of "time" is \<open>NaN\<close>,
  not 0.
\<close>

theorem simplify_magnetic_df_time_all_missing:
  "fst (simplify_magnetic_df 0 [unstamped_table]) = Inr 1
   \<and> map_of (deref (snd (simplify_magnetic_df 0 [unstamped_table])) 1) ''time''
       = Some [(0, NaN)]
   \<and> series_min [(0, NaN)] = NaN
   \<and> series_min [(0, NaN)] \<noteq> Fin 0"
  by (simp add: simplify_unstamped_table deref_def series_min_def notna_values_def notna_def)

lemma simplify_frame:
  assumes "r < length h"
  shows "deref (snd (simplify_magnetic_df df h)) r = deref h r
       \<and> length (snd (simplify_magnetic_df df h)) = Suc (length h)"
  using assms
  by (simp add: simplify_magnetic_df_def new_DataFrame_def Let_def deref_heap_setitem_other
      heap_setitem_length deref_new split: sum.splits)

lemma simplify_fresh:
  "fst (simplify_magnetic_df df h) = Inr r' \<Longrightarrow> r' = length h"
  by (simp add: simplify_magnetic_df_def new_DataFrame_def Let_def split: sum.splits if_splits)

text \<open>
  Claim C10. Whatever \<open>simplify_magnetic_df\<close> returns or raises, every table that
  existed before the call, the input among them, holds the same columns after it; the
  call allocates exactly one table, and the table it returns is that new one.
\<close>

theorem simplify_magnetic_df_frame:
  "(\<forall>r < length h. deref (snd (simplify_magnetic_df df h)) r = deref h r)
   \<and> length (snd (simplify_magnetic_df df h)) = Suc (length h)
   \<and> (\<forall>new_df. fst (simplify_magnetic_df df h) = Inr new_df \<longrightarrow> new_df = length h)"
proof (intro conjI allI impI)
  fix r assume "r < length h"
  then show "deref (snd (simplify_magnetic_df df h)) r = deref h r"
    using simplify_frame by blast
next
  show "length (snd (simplify_magnetic_df df h)) = Suc (length h)"
    by (simp add: simplify_magnetic_df_def new_DataFrame_def Let_def heap_setitem_length
        split: sum.splits)
next
  fix new_df assume "fst (simplify_magnetic_df df h) = Inr new_df"
  then show "new_df = length h" by (rule simplify_fresh)
qed

theorem simplify_magnetic_df_frame_witness:
  "deref (snd (simplify_magnetic_df 0 [vsm_table])) 0 = vsm_table
   \<and> length (snd (simplify_magnetic_df 0 [vsm_table])) = 2
   \<and> fst (simplify_magnetic_df 0 [vsm_table]) = Inr 1"
proof -
  have r: "fst (simplify_magnetic_df 0 [vsm_table]) = Inr 1"
    by (simp add: simplify_vsm_table)
  from simplify_magnetic_df_frame [of "[vsm_table]" 0]
  have "deref (snd (simplify_magnetic_df 0 [vsm_table])) 0 = deref [vsm_table] 0"
    and "length (snd (simplify_magnetic_df 0 [vsm_table])) = Suc (length [vsm_table])"
    by simp_all
  with r show ?thesis by (simp add: deref_def)
qed

subsection \<open>Reading the data section\<close>

text \<open>
  Two small instrument files: one whose data section has a single column under either
  separator, and one whose header row holds a comma.
\<close>

definition one_column_file :: "string list" where
  "one_column_file = [''[Data]'', ''a'', ''1'', ''2'']"

definition comma_file :: "string list" where
  "comma_file = [''[Data]'', ''a,b'']"

lemma get_header_one_column_file:
  "get_header [''f.dat'' \<mapsto> one_column_file] ''f.dat'' = Inr [[''[Data]'']]"
  by (simp add: get_header_def one_column_file_def csv_row_def tab_def)

lemma get_header_comma_file:
  "get_header [''f.dat'' \<mapsto> comma_file] ''f.dat'' = Inr [[''[Data]'']]"
  by (simp add: get_header_def comma_file_def csv_row_def tab_def)

lemma read_tab_one_column_file:
  "read_csv_plain one_column_file (Some tab) (Suc 0) = Inr [(''a'', [(0, Fin 1), (1, Fin 2)])]"
  by (simp add: read_csv_plain_def one_column_file_def tab_def plain_column_def parse_cell_def
      is_digit_def digit_value_def Let_def upt_rec)

lemma read_default_one_column_file:
  "read_csv_plain one_column_file None (Suc 0) = Inr [(''a'', [(0, Fin 1), (1, Fin 2)])]"
  by (simp add: read_csv_plain_def one_column_file_def plain_column_def parse_cell_def
      is_digit_def digit_value_def Let_def upt_rec)

lemma read_tab_comma_file:
  "read_csv_plain comma_file (Some tab) (Suc 0) = Inr [(''a,b'', [])]"
  by (simp add: read_csv_plain_def comma_file_def tab_def plain_column_def parse_cell_def
      is_digit_def digit_value_def Let_def upt_rec)

lemma read_default_comma_file:
  "read_csv_plain comma_file None (Suc 0) = Inr [(''a'', []), (''b'', [])]"
  by (simp add: read_csv_plain_def comma_file_def plain_column_def parse_cell_def
      is_digit_def digit_value_def Let_def upt_rec)

text \<open>
  Claim C7, as the code has it. Take a file whose header is found and whose data
  section parses with the tab separator. If that table has exactly one column,
  \<open>get_data\<close> reads the same file again, with the same number of skipped lines and the
  separator left to pandas, and its result is the outcome of that second reading as it
  is: a table of any number of columns, or the reader's own exception. If the table has
  another number of columns, it is returned. \<open>get_data\<close> raises nothing of its own for
  the number of columns.
\<close>

theorem get_data_retry:
  assumes "fs file_path = Some lines"
    and "get_header fs file_path = Inr header"
    and "read_csv lines (Some tab) (length header) = Inr df"
  shows "(shape1 df = 1 \<longrightarrow>
            get_data read_csv fs file_path = read_csv lines None (length header))
       \<and> (shape1 df \<noteq> 1 \<longrightarrow> get_data read_csv fs file_path = Inr df)"
  using assms by (simp add: get_data_def)

text \<open>
  The header row \<open>a,b\<close> is one column under the tab separator and two under the default
  one: the second reading is what \<open>get_data\<close> returns.
\<close>

theorem get_data_retry_witness:
  "shape1 [(''a,b'', [])] = 1
   \<and> read_csv_plain comma_file (Some tab) 1 = Inr [(''a,b'', [])]
   \<and> get_data read_csv_plain [''f.dat'' \<mapsto> comma_file] ''f.dat''
       = Inr [(''a'', []), (''b'', [])]"
proof -
  have 1: "[''f.dat'' \<mapsto> comma_file] ''f.dat'' = Some comma_file" by simp
  have 2: "get_header [''f.dat'' \<mapsto> comma_file] ''f.dat'' = Inr [[''[Data]'']]"
    by (rule get_header_comma_file)
  have 3: "read_csv_plain comma_file (Some tab) (length [[''[Data]'']]) = Inr [(''a,b'', [])]"
    by (simp add: read_tab_comma_file)
  have s: "shape1 [(''a,b'', [])] = 1" by (simp add: shape1_def)
  from get_data_retry [where read_csv = read_csv_plain and lines = comma_file
      and header = "[[''[Data]'']]" and df = "[(''a,b'', [])]", OF 1 2 3] s
  have "get_data read_csv_plain [''f.dat'' \<mapsto> comma_file] ''f.dat''
      = read_csv_plain comma_file None (length [[''[Data]'']])"
    by blast
  then show ?thesis
    using s by (simp add: read_default_comma_file read_tab_comma_file)
qed

text \<open>
  Claim C7 as stated fails on a file with a single column of numbers: both readings
  give a table of one column, and \<open>get_data\<close> returns it; no ParserError is raised.
\<close>

theorem get_data_single_column_returned:
  "read_csv_plain one_column_file (Some tab) 1 = Inr [(''a'', [(0, Fin 1), (1, Fin 2)])]
   \<and> read_csv_plain one_column_file None 1 = Inr [(''a'', [(0, Fin 1), (1, Fin 2)])]
   \<and> shape1 [(''a'', [(0, Fin 1), (1, Fin 2)])] = 1
   \<and> get_data read_csv_plain [''f.dat'' \<mapsto> one_column_file] ''f.dat''
       = Inr [(''a'', [(0, Fin 1), (1, Fin 2)])]
   \<and> get_data read_csv_plain [''f.dat'' \<mapsto> one_column_file] ''f.dat'' \<noteq> Inl ParserError"
  by (simp add: get_data_def get_header_one_column_file read_tab_one_column_file
      read_default_one_column_file shape1_def)

end
